theory Spec2Isabelle
  imports Main "HOL-Library.Char_ord" "HOL-Library.List_Lexorder"
begin

section \<open>Data model of \<open>fsleyes/profiles/profilemap.py\<close>\<close>

text \<open>
  The module is a set of dictionary literals. The classes it imports are opaque names
  here: the view panel classes that key \<open>profiles\<close> and \<open>profileHandlers\<close>, and the
  profile classes that are the values of \<open>profileHandlers\<close> and the keys of the three
  handler maps.
\<close>

datatype view_panel =
    OrthoPanel | LightBoxPanel | TimeSeriesPanel
  | HistogramPanel | PowerSpectrumPanel | Scene3DPanel

datatype profile_class =
    OrthoViewProfile | OrthoEditProfile | OrthoCropProfile | OrthoAnnotateProfile
  | LightBoxViewProfile | PlotProfile | HistogramProfile | TimeSeriesProfile
  | Scene3DViewProfile

text \<open>
  The three \<open>wx\<close> key constants the module uses. Their integer values belong to the
  \<open>wx\<close> library and are not part of this module; the module orders them by name
  ("in alphabetical order", line 86), so a key carries its identifier.
\<close>

datatype wx_key = WXK_ALT | WXK_CONTROL | WXK_SHIFT

fun key_name :: "wx_key \<Rightarrow> string" where
  "key_name WXK_ALT = ''WXK_ALT''"
| "key_name WXK_CONTROL = ''WXK_CONTROL''"
| "key_name WXK_SHIFT = ''WXK_SHIFT''"

text \<open>
  The second component of a \<open>tempModeMap\<close> key is either one bare key constant or a
  tuple of key constants; Python does not identify \<open>k\<close> with \<open>(k,)\<close>.
\<close>

datatype modifier_keys = Key wx_key | Keys "wx_key list"

type_synonym mode = string
type_synonym event_type = string

text \<open>
  A dictionary literal is the list of its \<open>key: value\<close> items in source order. Looking
  a key up returns the value of the last item written with that key, as Python's
  dictionary display and \<open>OrderedDict(pairs)\<close> do, and nothing for a key never written.
\<close>

fun dict_get :: "('k \<times> 'v) list \<Rightarrow> 'k \<Rightarrow> 'v option" where
  "dict_get [] k = None"
| "dict_get ((k', v) # kvs) k =
     (case dict_get kvs k of
        Some w \<Rightarrow> Some w
      | None \<Rightarrow> (if k' = k then Some v else None))"

definition dict_keys :: "('k \<times> 'v) list \<Rightarrow> 'k list" where
  "dict_keys d = map fst d"

text \<open>
  Indexing a dictionary of dictionaries, \<open>m[a][b]\<close>, with \<open>None\<close> where either key is
  missing.
\<close>

definition dict_get2 :: "('a \<times> ('b \<times> 'c) list) list \<Rightarrow> 'a \<Rightarrow> 'b \<Rightarrow> 'c option" where
  "dict_get2 m a b = (case dict_get m a of None \<Rightarrow> None | Some d \<Rightarrow> dict_get d b)"

subsection \<open>\<open>profiles\<close> and \<open>profileHandlers\<close> (lines 48--72)\<close>

definition profiles :: "(view_panel \<times> string list) list" where
  "profiles =
    [(OrthoPanel,         [''view'', ''edit'', ''crop'', ''annotate'']),
     (LightBoxPanel,      [''view'']),
     (TimeSeriesPanel,    [''view'']),
     (HistogramPanel,     [''view'']),
     (PowerSpectrumPanel, [''view'']),
     (Scene3DPanel,       [''view''])]"

definition profileHandlers :: "((view_panel \<times> string) \<times> profile_class) list" where
  "profileHandlers =
    [((OrthoPanel,         ''view''),     OrthoViewProfile),
     ((OrthoPanel,         ''edit''),     OrthoEditProfile),
     ((OrthoPanel,         ''crop''),     OrthoCropProfile),
     ((OrthoPanel,         ''annotate''), OrthoAnnotateProfile),
     ((LightBoxPanel,      ''view''),     LightBoxViewProfile),
     ((TimeSeriesPanel,    ''view''),     TimeSeriesProfile),
     ((HistogramPanel,     ''view''),     HistogramProfile),
     ((PowerSpectrumPanel, ''view''),     PlotProfile),
     ((Scene3DPanel,       ''view''),     Scene3DViewProfile)]"

subsection \<open>\<open>tempModeMap\<close> (lines 89--176)\<close>

definition tempModeMap :: "(profile_class \<times> ((mode \<times> modifier_keys) \<times> mode) list) list" where
  "tempModeMap =
    [(OrthoViewProfile,
       [((''nav'', Key WXK_CONTROL), ''zoom''),
        ((''nav'', Key WXK_ALT), ''pan''),
        ((''nav'', Key WXK_SHIFT), ''slice''),
        ((''nav'', Keys [WXK_CONTROL, WXK_SHIFT]), ''bricon'')]),
     (OrthoEditProfile,
       [((''sel'', Key WXK_SHIFT), ''slice''),
        ((''desel'', Key WXK_SHIFT), ''slice''),
        ((''selint'', Key WXK_SHIFT), ''slice''),
        ((''fill'', Key WXK_SHIFT), ''slice''),
        ((''sel'', Key WXK_ALT), ''pan''),
        ((''desel'', Key WXK_ALT), ''pan''),
        ((''selint'', Key WXK_ALT), ''pan''),
        ((''fill'', Key WXK_ALT), ''pan''),
        ((''sel'', Key WXK_CONTROL), ''zoom''),
        ((''desel'', Key WXK_CONTROL), ''zoom''),
        ((''selint'', Key WXK_CONTROL), ''zoom''),
        ((''fill'', Key WXK_CONTROL), ''zoom''),
        ((''sel'', Keys [WXK_CONTROL, WXK_SHIFT]), ''chsize''),
        ((''desel'', Keys [WXK_CONTROL, WXK_SHIFT]), ''chsize''),
        ((''selint'', Keys [WXK_CONTROL, WXK_SHIFT]), ''chthres''),
        ((''selint'', Keys [WXK_ALT, WXK_SHIFT]), ''chrad'')]),
     (OrthoCropProfile,
       [((''crop'', Key WXK_SHIFT), ''nav''),
        ((''crop'', Key WXK_CONTROL), ''zoom''),
        ((''crop'', Key WXK_ALT), ''pan''),
        ((''crop'', Keys [WXK_CONTROL, WXK_SHIFT]), ''slice'')]),
     (OrthoAnnotateProfile,
       [((''line'', Key WXK_SHIFT), ''nav''),
        ((''line'', Key WXK_CONTROL), ''zoom''),
        ((''line'', Key WXK_ALT), ''pan''),
        ((''line'', Keys [WXK_CONTROL, WXK_SHIFT]), ''slice''),
        ((''point'', Key WXK_SHIFT), ''nav''),
        ((''point'', Key WXK_CONTROL), ''zoom''),
        ((''point'', Key WXK_ALT), ''pan''),
        ((''point'', Keys [WXK_CONTROL, WXK_SHIFT]), ''slice''),
        ((''rect'', Key WXK_SHIFT), ''nav''),
        ((''rect'', Key WXK_CONTROL), ''zoom''),
        ((''rect'', Key WXK_ALT), ''pan''),
        ((''rect'', Keys [WXK_CONTROL, WXK_SHIFT]), ''slice''),
        ((''text'', Key WXK_SHIFT), ''nav''),
        ((''text'', Key WXK_CONTROL), ''zoom''),
        ((''text'', Key WXK_ALT), ''pan''),
        ((''text'', Keys [WXK_CONTROL, WXK_SHIFT]), ''slice''),
        ((''ellipse'', Key WXK_SHIFT), ''nav''),
        ((''ellipse'', Key WXK_CONTROL), ''zoom''),
        ((''ellipse'', Key WXK_ALT), ''pan''),
        ((''ellipse'', Keys [WXK_CONTROL, WXK_SHIFT]), ''slice''),
        ((''arrow'', Key WXK_SHIFT), ''nav''),
        ((''arrow'', Key WXK_CONTROL), ''zoom''),
        ((''arrow'', Key WXK_ALT), ''pan''),
        ((''arrow'', Keys [WXK_CONTROL, WXK_SHIFT]), ''slice'')]),
     (LightBoxViewProfile,
       [((''view'', Key WXK_CONTROL), ''zoom'')]),
     (TimeSeriesProfile,
       [((''panzoom'', Key WXK_CONTROL), ''volume'')]),
     (HistogramProfile,
       [((''panzoom'', Key WXK_CONTROL), ''overlayRange'')]),
     (Scene3DViewProfile,
       [((''rotate'', Key WXK_CONTROL), ''zoom''),
        ((''rotate'', Key WXK_ALT), ''pan''),
        ((''rotate'', Key WXK_SHIFT), ''pick'')])]"

text \<open>
  The comment above \<open>tempModeMap\<close> (lines 85--88) asks that the key identifiers of a
  multi-key tuple be given "in alphabetical order", for example
  \<open>(wx.WXK_CTRL, wx.WXK_SHIFT)\<close> for shift+ctrl. A tuple is in that order when its
  identifiers ascend strictly, which also excludes a repeated key.
\<close>

definition canonical_keys :: "wx_key list \<Rightarrow> bool" where
  "canonical_keys ks = sorted_wrt (\<lambda>a b. key_name a < key_name b) ks"

subsection \<open>\<open>altHandlerMap\<close> (lines 189--320)\<close>

definition altHandlerMap :: "(profile_class \<times> ((mode \<times> event_type) \<times> (mode \<times> event_type)) list) list" where
  "altHandlerMap =
    [(OrthoViewProfile,
       [((''nav'', ''LeftMouseDown''), (''nav'', ''LeftMouseDrag'')),
        ((''nav'', ''MiddleMouseDrag''), (''pan'', ''LeftMouseDrag'')),
        ((''nav'', ''RightMouseDown''), (''zoom'', ''RightMouseDown'')),
        ((''nav'', ''RightMouseDrag''), (''zoom'', ''RightMouseDrag'')),
        ((''nav'', ''RightMouseUp''), (''zoom'', ''RightMouseUp'')),
        ((''slice'', ''LeftMouseDown''), (''pick'', ''LeftMouseDown'')),
        ((''slice'', ''LeftMouseDrag''), (''pick'', ''LeftMouseDrag'')),
        ((''slice'', ''MiddleMouseDrag''), (''pan'', ''LeftMouseDrag'')),
        ((''slice'', ''RightMouseDown''), (''zoom'', ''RightMouseDown'')),
        ((''slice'', ''RightMouseDrag''), (''zoom'', ''RightMouseDrag'')),
        ((''slice'', ''RightMouseUp''), (''zoom'', ''RightMouseUp'')),
        ((''zoom'', ''RightMouseDown''), (''zoom'', ''RightMouseDrag'')),
        ((''zoom'', ''LeftMouseDown''), (''nav'', ''LeftMouseDown'')),
        ((''zoom'', ''LeftMouseDrag''), (''nav'', ''LeftMouseDrag'')),
        ((''zoom'', ''MiddleMouseDrag''), (''pan'', ''LeftMouseDrag'')),
        ((''pick'', ''LeftMouseDown''), (''pick'', ''LeftMouseDrag''))]),
     (OrthoEditProfile,
       [((''sel'', ''Char''), (''nav'', ''Char'')),
        ((''desel'', ''Char''), (''nav'', ''Char'')),
        ((''selint'', ''Char''), (''nav'', ''Char'')),
        ((''fill'', ''Char''), (''nav'', ''Char'')),
        ((''sel'', ''RightMouseDown''), (''desel'', ''LeftMouseDown'')),
        ((''sel'', ''RightMouseDrag''), (''desel'', ''LeftMouseDrag'')),
        ((''sel'', ''RightMouseUp''), (''desel'', ''LeftMouseUp'')),
        ((''desel'', ''RightMouseDown''), (''sel'', ''LeftMouseDown'')),
        ((''desel'', ''RightMouseDrag''), (''sel'', ''LeftMouseDrag'')),
        ((''desel'', ''RightMouseUp''), (''sel'', ''LeftMouseUp'')),
        ((''fill'', ''RightMouseDown''), (''desel'', ''LeftMouseDown'')),
        ((''fill'', ''RightMouseDrag''), (''desel'', ''LeftMouseDrag'')),
        ((''fill'', ''RightMouseUp''), (''desel'', ''LeftMouseUp'')),
        ((''selint'', ''RightMouseDown''), (''desel'', ''LeftMouseDown'')),
        ((''selint'', ''RightMouseDrag''), (''desel'', ''LeftMouseDrag'')),
        ((''selint'', ''RightMouseUp''), (''desel'', ''LeftMouseUp'')),
        ((''desel'', ''MouseMove''), (''sel'', ''MouseMove'')),
        ((''sel'', ''MiddleMouseDrag''), (''pan'', ''LeftMouseDrag'')),
        ((''desel'', ''MiddleMouseDrag''), (''pan'', ''LeftMouseDrag'')),
        ((''selint'', ''MiddleMouseDrag''), (''pan'', ''LeftMouseDrag''))]),
     (OrthoCropProfile,
       [((''crop'', ''MiddleMouseDrag''), (''pan'', ''LeftMouseDrag''))]),
     (OrthoAnnotateProfile,
       [((''line'', ''MiddleMouseDrag''), (''pan'', ''LeftMouseDrag'')),
        ((''point'', ''MiddleMouseDrag''), (''pan'', ''LeftMouseDrag'')),
        ((''rect'', ''MiddleMouseDrag''), (''pan'', ''LeftMouseDrag'')),
        ((''text'', ''MiddleMouseDrag''), (''pan'', ''LeftMouseDrag'')),
        ((''arrow'', ''MiddleMouseDrag''), (''pan'', ''LeftMouseDrag'')),
        ((''ellipse'', ''MiddleMouseDrag''), (''pan'', ''LeftMouseDrag'')),
        ((''line'', ''RightMouseDown''), (''move'', ''RightMouseDown'')),
        ((''point'', ''RightMouseDown''), (''move'', ''RightMouseDown'')),
        ((''rect'', ''RightMouseDown''), (''move'', ''RightMouseDown'')),
        ((''text'', ''RightMouseDown''), (''move'', ''RightMouseDown'')),
        ((''arrow'', ''RightMouseDown''), (''move'', ''RightMouseDown'')),
        ((''ellipse'', ''RightMouseDown''), (''move'', ''RightMouseDown'')),
        ((''line'', ''RightMouseDrag''), (''move'', ''RightMouseDrag'')),
        ((''point'', ''RightMouseDrag''), (''move'', ''RightMouseDrag'')),
        ((''rect'', ''RightMouseDrag''), (''move'', ''RightMouseDrag'')),
        ((''text'', ''RightMouseDrag''), (''move'', ''RightMouseDrag'')),
        ((''arrow'', ''RightMouseDrag''), (''move'', ''RightMouseDrag'')),
        ((''ellipse'', ''RightMouseDrag''), (''move'', ''RightMouseDrag'')),
        ((''line'', ''RightMouseUp''), (''move'', ''RightMouseUp'')),
        ((''point'', ''RightMouseUp''), (''move'', ''RightMouseUp'')),
        ((''rect'', ''RightMouseUp''), (''move'', ''RightMouseUp'')),
        ((''text'', ''RightMouseUp''), (''move'', ''RightMouseUp'')),
        ((''arrow'', ''RightMouseUp''), (''move'', ''RightMouseUp'')),
        ((''ellipse'', ''RightMouseUp''), (''move'', ''RightMouseUp''))]),
     (LightBoxViewProfile,
       [((''view'', ''LeftMouseDown''), (''view'', ''LeftMouseDrag''))]),
     (Scene3DViewProfile,
       [((''rotate'', ''MiddleMouseDown''), (''pan'', ''LeftMouseDown'')),
        ((''rotate'', ''MiddleMouseDrag''), (''pan'', ''LeftMouseDrag'')),
        ((''rotate'', ''MiddleMouseUp''), (''pan'', ''LeftMouseUp''))])]"

subsection \<open>\<open>fallbackHandlerMap\<close> (lines 340--345)\<close>

definition fallbackHandlerMap :: "(profile_class \<times> ((mode \<times> event_type) \<times> (mode \<times> event_type)) list) list" where
  "fallbackHandlerMap =
    [(OrthoViewProfile,
       [((''pick'', ''LeftMouseDown''), (''nav'', ''LeftMouseDown'')),
        ((''pick'', ''LeftMouseDrag''), (''nav'', ''LeftMouseDrag''))])]"

section \<open>Temporary modes and event dispatch\<close>

text \<open>
  The module only declares the tables; the classes that read them
  (\<open>Profile\<close> and \<open>ProfileManager\<close>, named in the module's docstring) are not part of
  the sources at hand. Their behaviour is taken from sections 3 and 4 of the
  specification, over the tables above.
\<close>

text \<open>
  Modelled from the spec: canonicalisation of a ModifierKeySet (section 3 and the
  glossary), for which the sources have no function: the held modifier keys, in any
  order and possibly repeated, become the deduplicated list sorted by key identifier.
\<close>

definition canonicalize :: "wx_key list \<Rightarrow> wx_key list" where
  "canonicalize ks = sort_key key_name (remdups ks)"

text \<open>
  Modelled from the spec: the form a canonical ModifierKeySet takes as a \<open>tempModeMap\<close>
  key. The table writes one key bare and several as a tuple; no held key gives no
  lookup key.
\<close>

definition modifierKey :: "wx_key list \<Rightarrow> modifier_keys option" where
  "modifierKey ks = (case ks of [] \<Rightarrow> None | [k] \<Rightarrow> Some (Key k) | _ \<Rightarrow> Some (Keys ks))"

text \<open>
  Modelled from the spec: temporary mode resolution (section 4.2), the missing
  \<open>Profile\<close> code that reads \<open>tempModeMap\<close>: an exact lookup of
  (BaseMode, ModifierKeySet) in the map of the profile class, giving the override mode
  or "no override".
\<close>

definition getTempMode :: "profile_class \<Rightarrow> mode \<Rightarrow> wx_key list \<Rightarrow> mode option" where
  "getTempMode P base held =
     (case modifierKey held of
        None \<Rightarrow> None
      | Some k \<Rightarrow> dict_get2 tempModeMap P (base, k))"

text \<open>
  Modelled from the spec: the effective mode (section 4.3, step 1): the override while
  one applies, the base mode otherwise.
\<close>

definition effectiveMode :: "profile_class \<Rightarrow> mode \<Rightarrow> wx_key list \<Rightarrow> mode" where
  "effectiveMode P base held =
     (case getTempMode P base held of None \<Rightarrow> base | Some m \<Rightarrow> m)"

text \<open>
  The handler methods of a profile object are outside the module. A method set says,
  for a (mode, event type) pair, whether the object has a method registered under it
  and, if so, whether that method reports the event as handled.
\<close>

type_synonym methods = "mode \<times> event_type \<Rightarrow> bool option"

datatype outcome = Handled | Unhandled

text \<open>
  Modelled from the spec: alternate handler resolution (section 4.3, steps 2 and 3),
  missing from the sources: one lookup in \<open>altHandlerMap\<close>; the target pair where
  there is an entry, the literal pair otherwise. The target is not looked up again
  (section 3: "exactly one indirection level").
\<close>

definition resolveHandler :: "profile_class \<Rightarrow> mode \<Rightarrow> event_type \<Rightarrow> mode \<times> event_type" where
  "resolveHandler P m e =
     (case dict_get2 altHandlerMap P (m, e) of Some t \<Rightarrow> t | None \<Rightarrow> (m, e))"

text \<open>
  Modelled from the spec: invoking the method registered under a pair (section 4.3,
  step 4). The result is the list of methods called and the "handled" signal; a pair
  with no method calls nothing and handles nothing.
\<close>

definition invoke :: "methods \<Rightarrow> mode \<times> event_type \<Rightarrow> (mode \<times> event_type) list \<times> bool" where
  "invoke ms t = (case ms t of None \<Rightarrow> ([], False) | Some handled \<Rightarrow> ([t], handled))"

text \<open>
  Modelled from the spec: event dispatch with redirection (section 4.3), the missing
  \<open>Profile\<close> dispatcher, for an effective mode and an event type. It returns the
  methods it called, in order, and whether the event was handled. When the primary
  handler declines, the fallback entry of the literal (mode, event type) pair, if any,
  is invoked; with no fallback, or a fallback that declines, the event is unhandled.
\<close>

definition dispatch ::
  "profile_class \<Rightarrow> methods \<Rightarrow> mode \<Rightarrow> event_type \<Rightarrow> (mode \<times> event_type) list \<times> outcome" where
  "dispatch P ms m e =
     (case invoke ms (resolveHandler P m e) of
        (calls, True) \<Rightarrow> (calls, Handled)
      | (calls, False) \<Rightarrow>
          (case dict_get2 fallbackHandlerMap P (m, e) of
             None \<Rightarrow> (calls, Unhandled)
           | Some t \<Rightarrow>
               (case invoke ms t of
                  (calls', True) \<Rightarrow> (calls @ calls', Handled)
                | (calls', False) \<Rightarrow> (calls @ calls', Unhandled))))"

section \<open>Dictionary lookup\<close>

lemma dict_get_Some_mem: "dict_get d k = Some v \<Longrightarrow> (k, v) \<in> set d"
  by (induction d) (auto split: option.splits if_splits)

lemma dict_get_None_iff: "dict_get d k = None \<longleftrightarrow> k \<notin> set (dict_keys d)"
  by (induction d) (auto simp: dict_keys_def split: option.splits)

lemma dict_get_distinct:
  "distinct (dict_keys d) \<Longrightarrow> (k, v) \<in> set d \<Longrightarrow> dict_get d k = Some v"
proof (induction d)
  case Nil
  then show ?case by simp
next
  case (Cons kv d)
  obtain k' v' where kv: "kv = (k', v')" by (cases kv)
  from Cons.prems(1) have fresh: "k' \<notin> set (dict_keys d)" and dist: "distinct (dict_keys d)"
    by (simp_all add: kv dict_keys_def)
  show ?case
  proof (cases "(k, v) \<in> set d")
    case True
    with Cons.IH dist show ?thesis by (simp add: kv)
  next
    case False
    with Cons.prems(2) have here: "k = k'" "v = v'" by (simp_all add: kv)
    from fresh have "dict_get d k' = None" by (simp add: dict_get_None_iff)
    then show ?thesis by (simp add: kv here)
  qed
qed

section \<open>The profile tables\<close>

lemma profiles_keys_distinct: "distinct (dict_keys profiles)"
  by (simp add: profiles_def dict_keys_def)

lemma profileHandlers_keys_distinct: "distinct (dict_keys profileHandlers)"
  by (simp add: profileHandlers_def dict_keys_def)

lemma dict_get2_SomeD:
  "dict_get2 m a b = Some c \<Longrightarrow> \<exists>d. dict_get m a = Some d \<and> (b, c) \<in> set d"
  by (auto simp: dict_get2_def dest: dict_get_Some_mem split: option.splits)

lemma dict_get2_inner: "dict_get m a = Some d \<Longrightarrow> dict_get2 m a b = dict_get d b"
  by (simp add: dict_get2_def)

text \<open>
  C10: every view panel class registered in \<open>profiles\<close> lists \<open>'view'\<close> among its profile
  names, and \<open>profileHandlers\<close> has a handler class for (panel class, \<open>'view'\<close>).
\<close>

theorem profiles_view_available:
  "\<forall>vt ms. dict_get profiles vt = Some ms \<longrightarrow>
     ''view'' \<in> set ms \<and> (\<exists>h. dict_get profileHandlers (vt, ''view'') = Some h)"
proof (intro allI impI)
  fix vt ms
  assume "dict_get profiles vt = Some ms"
  then show "''view'' \<in> set ms \<and> (\<exists>h. dict_get profileHandlers (vt, ''view'') = Some h)"
    by (cases vt) (auto simp: profiles_def profileHandlers_def)
qed

theorem profiles_view_available_witness:
  "dict_get profiles Scene3DPanel = Some [''view''] \<and>
   ''view'' \<in> set [''view''] \<and>
   dict_get profileHandlers (Scene3DPanel, ''view'') = Some Scene3DViewProfile"
  using profiles_view_available [rule_format, of Scene3DPanel "[''view'']"]
  by (simp add: profiles_def profileHandlers_def)

text \<open>
  C5: for every profile name that \<open>profiles\<close> lists for a view panel class, looking the
  (panel class, name) pair up in \<open>profileHandlers\<close> gives a handler class, one that the
  table holds; and no key is written twice in \<open>profileHandlers\<close>, so the lookup has one
  answer.
\<close>

theorem profileHandlers_resolves_profiles:
  "(\<forall>vt ms m. dict_get profiles vt = Some ms \<longrightarrow> m \<in> set ms \<longrightarrow>
      (\<exists>h. dict_get profileHandlers (vt, m) = Some h \<and> h \<in> snd ` set profileHandlers))
   \<and> distinct (dict_keys profileHandlers)"
proof (intro conjI allI impI)
  fix vt ms m
  assume "dict_get profiles vt = Some ms" and "m \<in> set ms"
  then have "\<exists>h. dict_get profileHandlers (vt, m) = Some h"
    by (cases vt) (auto simp: profiles_def profileHandlers_def)
  then show "\<exists>h. dict_get profileHandlers (vt, m) = Some h \<and> h \<in> snd ` set profileHandlers"
    by (force dest: dict_get_Some_mem)
next
  show "distinct (dict_keys profileHandlers)"
    by (rule profileHandlers_keys_distinct)
qed

theorem profileHandlers_resolves_profiles_witness:
  "dict_get profiles OrthoPanel = Some [''view'', ''edit'', ''crop'', ''annotate''] \<and>
   ''crop'' \<in> set [''view'', ''edit'', ''crop'', ''annotate''] \<and>
   dict_get profileHandlers (OrthoPanel, ''crop'') = Some OrthoCropProfile"
  using profileHandlers_resolves_profiles
    [THEN conjunct1, rule_format, of OrthoPanel "[''view'', ''edit'', ''crop'', ''annotate'']" "''crop''"]
  by (simp add: profiles_def profileHandlers_def)

section \<open>The temporary mode map\<close>

lemma tempModeMap_entries_differ:
  "dict_get tempModeMap P = Some d \<Longrightarrow> ((b, k), m) \<in> set d \<Longrightarrow> m \<noteq> b"
  by (cases P) (auto simp: tempModeMap_def)

text \<open>
  C9: in the temporary mode map of every profile class, the override mode of an entry
  differs from the entry's base mode.
\<close>

theorem tempModeMap_override_differs:
  "\<forall>P b k m. dict_get2 tempModeMap P (b, k) = Some m \<longrightarrow> m \<noteq> b"
  using dict_get2_SomeD tempModeMap_entries_differ by fast

theorem tempModeMap_override_differs_witness:
  "dict_get2 tempModeMap OrthoCropProfile (''crop'', Key WXK_SHIFT) = Some ''nav'' \<and>
   ''nav'' \<noteq> ''crop''"
  using tempModeMap_override_differs [rule_format, of OrthoCropProfile "''crop''" "Key WXK_SHIFT" "''nav''"]
  by (simp add: dict_get2_def tempModeMap_def)

lemma key_name_inj: "key_name a = key_name b \<Longrightarrow> a = b"
  by (cases a; cases b) simp_all

lemma canonical_keys_sorted:
  "canonical_keys ks \<longleftrightarrow> sorted (map key_name ks) \<and> distinct ks"
proof -
  have "canonical_keys ks \<longleftrightarrow> sorted_wrt (<) (map key_name ks)"
    by (simp add: canonical_keys_def sorted_wrt_map)
  also have "\<dots> \<longleftrightarrow> sorted (map key_name ks) \<and> distinct (map key_name ks)"
    by (simp add: strict_sorted_iff)
  also have "distinct (map key_name ks) \<longleftrightarrow> distinct ks"
    by (auto simp: distinct_map inj_on_def dest: key_name_inj)
  finally show ?thesis .
qed

lemma canonical_keys_unique:
  assumes "canonical_keys ks" and "canonical_keys ks'" and "set ks = set ks'"
  shows "ks = ks'"
proof -
  from assms have "map key_name ks = map key_name ks'"
    by (intro sorted_distinct_set_unique)
       (auto simp: canonical_keys_sorted distinct_map inj_on_def dest: key_name_inj)
  then show ?thesis
    by (rule map_injective) (auto simp: inj_on_def dest: key_name_inj)
qed

lemma tempModeMap_tuples_sorted:
  "dict_get tempModeMap P = Some d \<Longrightarrow> ((b, Keys ks), m) \<in> set d \<Longrightarrow> canonical_keys ks"
  by (cases P) (auto simp: tempModeMap_def canonical_keys_def)

text \<open>
  C6: every multi-key tuple that keys the temporary mode map is sorted ascending by key
  identifier (the identifiers \<open>WXK_ALT\<close>, \<open>WXK_CONTROL\<close>, \<open>WXK_SHIFT\<close> in alphabetical
  order, as the module's comment at line 85 requires), with no key repeated; so any two
  tuples of the map, of any profile class, that hold the same keys are the same tuple.
\<close>

theorem tempModeMap_keys_canonical_order:
  "(\<forall>P b ks m. dict_get2 tempModeMap P (b, Keys ks) = Some m \<longrightarrow> canonical_keys ks) \<and>
   (\<forall>P b ks m P' b' ks' m'.
      dict_get2 tempModeMap P (b, Keys ks) = Some m \<longrightarrow>
      dict_get2 tempModeMap P' (b', Keys ks') = Some m' \<longrightarrow>
      set ks = set ks' \<longrightarrow> ks = ks')"
proof -
  have canon: "canonical_keys ks"
    if "dict_get2 tempModeMap P (b, Keys ks) = Some m" for P b ks m
    using that by (blast dest: dict_get2_SomeD tempModeMap_tuples_sorted)
  show ?thesis
    using canon canonical_keys_unique by blast
qed

theorem tempModeMap_keys_canonical_order_witness:
  "dict_get2 tempModeMap OrthoEditProfile (''selint'', Keys [WXK_ALT, WXK_SHIFT]) = Some ''chrad'' \<and>
   canonical_keys [WXK_ALT, WXK_SHIFT] \<and>
   dict_get2 tempModeMap OrthoViewProfile (''nav'', Keys [WXK_CONTROL, WXK_SHIFT]) = Some ''bricon'' \<and>
   dict_get2 tempModeMap OrthoCropProfile (''crop'', Keys [WXK_CONTROL, WXK_SHIFT]) = Some ''slice'' \<and>
   canonical_keys [WXK_CONTROL, WXK_SHIFT] \<and>
   \<not> canonical_keys [WXK_SHIFT, WXK_CONTROL]"
  using tempModeMap_keys_canonical_order
    [THEN conjunct1, rule_format, of OrthoEditProfile "''selint''" "[WXK_ALT, WXK_SHIFT]" "''chrad''"]
  by (simp add: dict_get2_def tempModeMap_def canonical_keys_def)

section \<open>The alternate handler map\<close>

lemma altHandlerMap_hops:
  "dict_get altHandlerMap P = Some d \<Longrightarrow>
   list_all (\<lambda>(k, t).
      case dict_get d t of
        None \<Rightarrow> True
      | Some t' \<Rightarrow>
          P = OrthoViewProfile \<and>
          t \<in> {(''zoom'', ''RightMouseDown''), (''nav'', ''LeftMouseDown''),
                (''pick'', ''LeftMouseDown'')} \<and>
          dict_get d t' = None) d"
proof (cases P)
  case OrthoViewProfile
  assume "dict_get altHandlerMap P = Some d"
  with OrthoViewProfile show ?thesis by (clarsimp simp: altHandlerMap_def)
next
  case OrthoEditProfile
  assume "dict_get altHandlerMap P = Some d"
  with OrthoEditProfile show ?thesis by (clarsimp simp: altHandlerMap_def)
next
  case OrthoCropProfile
  assume "dict_get altHandlerMap P = Some d"
  with OrthoCropProfile show ?thesis by (clarsimp simp: altHandlerMap_def)
next
  case OrthoAnnotateProfile
  assume "dict_get altHandlerMap P = Some d"
  with OrthoAnnotateProfile show ?thesis by (clarsimp simp: altHandlerMap_def)
next
  case LightBoxViewProfile
  assume "dict_get altHandlerMap P = Some d"
  with LightBoxViewProfile show ?thesis by (clarsimp simp: altHandlerMap_def)
next
  case PlotProfile
  assume "dict_get altHandlerMap P = Some d"
  with PlotProfile show ?thesis by (simp add: altHandlerMap_def)
next
  case HistogramProfile
  assume "dict_get altHandlerMap P = Some d"
  with HistogramProfile show ?thesis by (simp add: altHandlerMap_def)
next
  case TimeSeriesProfile
  assume "dict_get altHandlerMap P = Some d"
  with TimeSeriesProfile show ?thesis by (simp add: altHandlerMap_def)
next
  case Scene3DViewProfile
  assume "dict_get altHandlerMap P = Some d"
  with Scene3DViewProfile show ?thesis by (clarsimp simp: altHandlerMap_def)
qed

text \<open>
  C1, as the tables have it: for every profile class other than \<open>OrthoViewProfile\<close> no
  target pair of an alternate entry is a key of the same alternate map. In the map of
  \<open>OrthoViewProfile\<close> three target pairs are keys themselves,
  \<open>('zoom', 'RightMouseDown')\<close>, \<open>('nav', 'LeftMouseDown')\<close> and
  \<open>('pick', 'LeftMouseDown')\<close>; the target of each of them is not a key. So following
  the alternate map from any key ends after at most two entries and never comes back.
\<close>

theorem altHandlerMap_at_most_two_hops:
  "\<forall>P k t. dict_get2 altHandlerMap P k = Some t \<longrightarrow>
     (P \<noteq> OrthoViewProfile \<longrightarrow> dict_get2 altHandlerMap P t = None) \<and>
     (\<forall>t'. dict_get2 altHandlerMap P t = Some t' \<longrightarrow>
        t \<in> {(''zoom'', ''RightMouseDown''), (''nav'', ''LeftMouseDown''),
              (''pick'', ''LeftMouseDown'')} \<and>
        dict_get2 altHandlerMap P t' = None)"
proof (intro allI impI)
  fix P k t
  assume "dict_get2 altHandlerMap P k = Some t"
  then obtain d where d: "dict_get altHandlerMap P = Some d" and kt: "(k, t) \<in> set d"
    by (blast dest: dict_get2_SomeD)
  from altHandlerMap_hops [OF d] kt
  have hop: "case dict_get d t of
        None \<Rightarrow> True
      | Some t' \<Rightarrow>
          P = OrthoViewProfile \<and>
          t \<in> {(''zoom'', ''RightMouseDown''), (''nav'', ''LeftMouseDown''),
                (''pick'', ''LeftMouseDown'')} \<and>
          dict_get d t' = None"
    by (auto simp: list_all_iff)
  show "(P \<noteq> OrthoViewProfile \<longrightarrow> dict_get2 altHandlerMap P t = None) \<and>
     (\<forall>t'. dict_get2 altHandlerMap P t = Some t' \<longrightarrow>
        t \<in> {(''zoom'', ''RightMouseDown''), (''nav'', ''LeftMouseDown''),
              (''pick'', ''LeftMouseDown'')} \<and>
        dict_get2 altHandlerMap P t' = None)"
    using hop unfolding dict_get2_inner [OF d]
    by (cases "dict_get d t") simp_all
qed

theorem altHandlerMap_at_most_two_hops_witness:
  "dict_get2 altHandlerMap OrthoViewProfile (''slice'', ''LeftMouseDown'') = Some (''pick'', ''LeftMouseDown'') \<and>
   dict_get2 altHandlerMap OrthoViewProfile (''pick'', ''LeftMouseDown'') = Some (''pick'', ''LeftMouseDrag'') \<and>
   dict_get2 altHandlerMap OrthoViewProfile (''pick'', ''LeftMouseDrag'') = None \<and>
   dict_get2 altHandlerMap OrthoEditProfile (''sel'', ''RightMouseDown'') = Some (''desel'', ''LeftMouseDown'') \<and>
   OrthoEditProfile \<noteq> OrthoViewProfile \<and>
   dict_get2 altHandlerMap OrthoEditProfile (''desel'', ''LeftMouseDown'') = None"
  using
    altHandlerMap_at_most_two_hops [rule_format, of OrthoViewProfile
      "(''slice'', ''LeftMouseDown'')" "(''pick'', ''LeftMouseDown'')"]
    altHandlerMap_at_most_two_hops [rule_format, of OrthoEditProfile
      "(''sel'', ''RightMouseDown'')" "(''desel'', ''LeftMouseDown'')"]
  by (simp add: dict_get2_def altHandlerMap_def)

text \<open>
  C1 as stated fails: in the alternate map of \<open>OrthoViewProfile\<close> the entry for
  \<open>('nav', 'RightMouseDown')\<close> (line 199) has the target \<open>('zoom', 'RightMouseDown')\<close>,
  which is the key of another entry of the same map (line 218).
\<close>

theorem altHandlerMap_one_hop_counterexample:
  "dict_get2 altHandlerMap OrthoViewProfile (''nav'', ''RightMouseDown'') =
     Some (''zoom'', ''RightMouseDown'') \<and>
   dict_get2 altHandlerMap OrthoViewProfile (''zoom'', ''RightMouseDown'') =
     Some (''zoom'', ''RightMouseDrag'')"
  by (simp add: dict_get2_def altHandlerMap_def)

section \<open>Canonical modifier key sets\<close>

lemma canonical_canonicalize: "canonical_keys (canonicalize ks)"
  by (simp add: canonical_keys_sorted canonicalize_def)

lemma canonicalize_canonical: "canonical_keys ks \<Longrightarrow> canonicalize ks = ks"
  by (simp add: canonical_keys_sorted canonicalize_def sort_key_id_if_sorted distinct_remdups_id)

text \<open>
  C8: canonicalisation is idempotent. Its result is sorted by key identifier without
  repetition and holds exactly the keys it was given, so it is a canonical form and
  not a constant.
\<close>

theorem canonicalize_idempotent:
  "canonicalize (canonicalize s) = canonicalize s \<and>
   canonical_keys (canonicalize s) \<and> set (canonicalize s) = set s"
  by (simp add: canonicalize_canonical canonical_canonicalize) (simp add: canonicalize_def)

theorem canonicalize_idempotent_witness:
  "canonicalize [WXK_SHIFT, WXK_CONTROL, WXK_SHIFT, WXK_ALT] = [WXK_ALT, WXK_CONTROL, WXK_SHIFT] \<and>
   canonicalize (canonicalize [WXK_SHIFT, WXK_CONTROL, WXK_SHIFT, WXK_ALT]) =
     [WXK_ALT, WXK_CONTROL, WXK_SHIFT]"
  using canonicalize_idempotent [of "[WXK_SHIFT, WXK_CONTROL, WXK_SHIFT, WXK_ALT]"]
  by (simp add: canonicalize_def)

section \<open>Temporary mode resolution\<close>

text \<open>
  C4: an override applies exactly when the (base mode, modifier key set) pair is a key
  of the temporary mode map of the profile class, and it is the value stored under that
  key. For \<open>OrthoViewProfile\<close>, base mode \<open>'nav'\<close> with Control held resolves to
  \<open>'zoom'\<close>, and with no key held (Control released) the effective mode is \<open>'nav'\<close>
  again. There is no subset matching: \<open>LightBoxViewProfile\<close> has an entry for
  \<open>'view'\<close> with Control, and Control with Shift gives no override.
\<close>

theorem getTempMode_exact_match:
  "(getTempMode P base held \<noteq> None \<longleftrightarrow>
      (\<exists>k d. modifierKey held = Some k \<and> dict_get tempModeMap P = Some d \<and>
             (base, k) \<in> set (dict_keys d))) \<and>
   (getTempMode P base held = Some m \<longleftrightarrow>
      (\<exists>k. modifierKey held = Some k \<and> dict_get2 tempModeMap P (base, k) = Some m)) \<and>
   getTempMode OrthoViewProfile ''nav'' [WXK_CONTROL] = Some ''zoom'' \<and>
   effectiveMode OrthoViewProfile ''nav'' [WXK_CONTROL] = ''zoom'' \<and>
   effectiveMode OrthoViewProfile ''nav'' [] = ''nav'' \<and>
   getTempMode LightBoxViewProfile ''view'' [WXK_CONTROL] = Some ''zoom'' \<and>
   getTempMode LightBoxViewProfile ''view'' [WXK_CONTROL, WXK_SHIFT] = None \<and>
   effectiveMode LightBoxViewProfile ''view'' [WXK_CONTROL, WXK_SHIFT] = ''view''"
proof (intro conjI)
  show "getTempMode P base held \<noteq> None \<longleftrightarrow>
      (\<exists>k d. modifierKey held = Some k \<and> dict_get tempModeMap P = Some d \<and>
             (base, k) \<in> set (dict_keys d))"
  proof (cases "modifierKey held")
    case None
    then show ?thesis by (simp add: getTempMode_def)
  next
    case (Some k)
    show ?thesis
    proof (cases "dict_get tempModeMap P")
      case None
      with Some show ?thesis by (simp add: getTempMode_def dict_get2_def)
    next
      case inner: (Some d)
      have "dict_get d (base, k) \<noteq> None \<longleftrightarrow> (base, k) \<in> set (dict_keys d)"
        by (simp add: dict_get_None_iff)
      with Some inner show ?thesis by (simp add: getTempMode_def dict_get2_def)
    qed
  qed
  show "getTempMode P base held = Some m \<longleftrightarrow>
      (\<exists>k. modifierKey held = Some k \<and> dict_get2 tempModeMap P (base, k) = Some m)"
    by (cases "modifierKey held") (simp_all add: getTempMode_def)
qed (simp_all add: effectiveMode_def getTempMode_def modifierKey_def dict_get2_def tempModeMap_def)

theorem getTempMode_exact_match_witness:
  "getTempMode OrthoEditProfile ''selint'' [WXK_ALT, WXK_SHIFT] = Some ''chrad'' \<and>
   modifierKey [WXK_ALT, WXK_SHIFT] = Some (Keys [WXK_ALT, WXK_SHIFT]) \<and>
   dict_get2 tempModeMap OrthoEditProfile (''selint'', Keys [WXK_ALT, WXK_SHIFT]) = Some ''chrad'' \<and>
   getTempMode OrthoEditProfile ''selint'' [WXK_ALT] = Some ''pan'' \<and>
   getTempMode OrthoEditProfile ''selint'' [WXK_ALT, WXK_CONTROL] = None"
  using getTempMode_exact_match [of OrthoEditProfile "''selint''" "[WXK_ALT, WXK_SHIFT]" "''chrad''"]
  by (simp add: getTempMode_def modifierKey_def dict_get2_def tempModeMap_def)

section \<open>Event dispatch\<close>

lemma resolveHandler_alt:
  "dict_get2 altHandlerMap P (m, e) = Some t \<Longrightarrow> resolveHandler P m e = t"
  by (simp add: resolveHandler_def)

lemma resolveHandler_literal:
  "dict_get2 altHandlerMap P (m, e) = None \<Longrightarrow> resolveHandler P m e = (m, e)"
  by (simp add: resolveHandler_def)

lemma dispatch_first_call:
  "ms (resolveHandler P m e) = Some b \<Longrightarrow>
   \<exists>rest. fst (dispatch P ms m e) = resolveHandler P m e # rest"
  by (cases b) (auto simp: dispatch_def invoke_def split: option.splits bool.splits)

lemma dispatch_no_fallback:
  "ms (resolveHandler P m e) = Some b \<Longrightarrow> dict_get2 fallbackHandlerMap P (m, e) = None \<Longrightarrow>
   dispatch P ms m e = ([resolveHandler P m e], if b then Handled else Unhandled)"
  by (cases b) (simp_all add: dispatch_def invoke_def)

lemma dispatch_declined_fallback:
  "ms (resolveHandler P m e) = Some False \<Longrightarrow>
   dict_get2 fallbackHandlerMap P (m, e) = Some t \<Longrightarrow> ms t = Some b \<Longrightarrow>
   dispatch P ms m e = ([resolveHandler P m e, t], if b then Handled else Unhandled)"
  by (cases b) (simp_all add: dispatch_def invoke_def)

lemma alt_nav_RightMouseDown:
  "dict_get2 altHandlerMap OrthoViewProfile (''nav'', ''RightMouseDown'') =
     Some (''zoom'', ''RightMouseDown'')"
  by (simp add: dict_get2_def altHandlerMap_def)

lemma alt_sel_RightMouseDown:
  "dict_get2 altHandlerMap OrthoEditProfile (''sel'', ''RightMouseDown'') =
     Some (''desel'', ''LeftMouseDown'')"
  by (simp add: dict_get2_def altHandlerMap_def)

lemma alt_pick_LeftMouseDown:
  "dict_get2 altHandlerMap OrthoViewProfile (''pick'', ''LeftMouseDown'') =
     Some (''pick'', ''LeftMouseDrag'')"
  by (simp add: dict_get2_def altHandlerMap_def)

lemma fallback_nav_RightMouseDown:
  "dict_get2 fallbackHandlerMap OrthoViewProfile (''nav'', ''RightMouseDown'') = None"
  by (simp add: dict_get2_def fallbackHandlerMap_def)

lemma fallback_OrthoEditProfile: "dict_get2 fallbackHandlerMap OrthoEditProfile k = None"
  by (simp add: dict_get2_def fallbackHandlerMap_def)

lemma fallback_pick_LeftMouseDown:
  "dict_get2 fallbackHandlerMap OrthoViewProfile (''pick'', ''LeftMouseDown'') =
     Some (''nav'', ''LeftMouseDown'')"
  by (simp add: dict_get2_def fallbackHandlerMap_def)

text \<open>
  C2: when (effective mode, event type) is a key of the alternate map, the handler
  resolved for it is the one registered under the target pair, and that is the first
  method dispatch calls. For \<open>OrthoViewProfile\<close> in mode \<open>'nav'\<close>, a \<open>RightMouseDown\<close>
  calls the \<open>RightMouseDown\<close> method of mode \<open>'zoom'\<close> and nothing else, in particular
  not the one of \<open>'nav'\<close>; for \<open>OrthoEditProfile\<close> in mode \<open>'sel'\<close>, a
  \<open>RightMouseDown\<close> calls the \<open>LeftMouseDown\<close> method of mode \<open>'desel'\<close> and nothing
  else.
\<close>

theorem dispatch_alternate_handler:
  "(\<forall>P ms m e t b. dict_get2 altHandlerMap P (m, e) = Some t \<longrightarrow> ms t = Some b \<longrightarrow>
      resolveHandler P m e = t \<and> (\<exists>rest. fst (dispatch P ms m e) = t # rest)) \<and>
   (\<forall>ms b. ms (''zoom'', ''RightMouseDown'') = Some b \<longrightarrow>
      fst (dispatch OrthoViewProfile ms ''nav'' ''RightMouseDown'') =
        [(''zoom'', ''RightMouseDown'')]) \<and>
   (\<forall>ms b. ms (''desel'', ''LeftMouseDown'') = Some b \<longrightarrow>
      fst (dispatch OrthoEditProfile ms ''sel'' ''RightMouseDown'') =
        [(''desel'', ''LeftMouseDown'')])"
proof (intro conjI allI impI)
  fix P and ms :: methods and m e t b
  assume alt: "dict_get2 altHandlerMap P (m, e) = Some t" and meth: "ms t = Some b"
  show "resolveHandler P m e = t" by (rule resolveHandler_alt [OF alt])
  with meth dispatch_first_call [of ms P m e b]
  show "\<exists>rest. fst (dispatch P ms m e) = t # rest" by simp
next
  fix ms :: methods and b
  assume "ms (''zoom'', ''RightMouseDown'') = Some b"
  then show "fst (dispatch OrthoViewProfile ms ''nav'' ''RightMouseDown'') =
      [(''zoom'', ''RightMouseDown'')]"
    using dispatch_no_fallback [of ms OrthoViewProfile "''nav''" "''RightMouseDown''" b]
    by (simp add: resolveHandler_alt [OF alt_nav_RightMouseDown] fallback_nav_RightMouseDown)
next
  fix ms :: methods and b
  assume "ms (''desel'', ''LeftMouseDown'') = Some b"
  then show "fst (dispatch OrthoEditProfile ms ''sel'' ''RightMouseDown'') =
      [(''desel'', ''LeftMouseDown'')]"
    using dispatch_no_fallback [of ms OrthoEditProfile "''sel''" "''RightMouseDown''" b]
    by (simp add: resolveHandler_alt [OF alt_sel_RightMouseDown] fallback_OrthoEditProfile)
qed

theorem dispatch_alternate_handler_witness:
  "dict_get2 altHandlerMap OrthoViewProfile (''slice'', ''MiddleMouseDrag'') =
     Some (''pan'', ''LeftMouseDrag'') \<and>
   (\<lambda>_. Some True) (''pan'', ''LeftMouseDrag'') = Some True \<and>
   resolveHandler OrthoViewProfile ''slice'' ''MiddleMouseDrag'' = (''pan'', ''LeftMouseDrag'') \<and>
   dispatch OrthoViewProfile (\<lambda>_. Some True) ''slice'' ''MiddleMouseDrag'' =
     ([(''pan'', ''LeftMouseDrag'')], Handled) \<and>
   dispatch OrthoViewProfile (\<lambda>_. Some True) ''nav'' ''RightMouseDown'' =
     ([(''zoom'', ''RightMouseDown'')], Handled) \<and>
   dispatch OrthoEditProfile (\<lambda>_. Some True) ''sel'' ''RightMouseDown'' =
     ([(''desel'', ''LeftMouseDown'')], Handled)"
  using dispatch_alternate_handler
    [THEN conjunct1, rule_format, of OrthoViewProfile "''slice''" "''MiddleMouseDrag''"
      "(''pan'', ''LeftMouseDrag'')" "\<lambda>_. Some True" True]
  by (simp add: dispatch_def invoke_def resolveHandler_def dict_get2_def altHandlerMap_def
        fallbackHandlerMap_def)

text \<open>
  C3: when the handler resolved for (mode, event type) declines and the fallback map
  has an entry for (mode, event type), dispatch next calls the method registered under
  the fallback entry's target, and the event is handled exactly when that method
  handles it. For \<open>OrthoViewProfile\<close> in mode \<open>'pick'\<close>, the fallback map has
  \<open>('pick', 'LeftMouseDown') -> ('nav', 'LeftMouseDown')\<close>, and a declined
  \<open>LeftMouseDown\<close> is passed to the \<open>LeftMouseDown\<close> method of mode \<open>'nav'\<close>.
\<close>

theorem dispatch_fallback_handler:
  "(\<forall>P ms m e t b. ms (resolveHandler P m e) = Some False \<longrightarrow>
      dict_get2 fallbackHandlerMap P (m, e) = Some t \<longrightarrow> ms t = Some b \<longrightarrow>
      dispatch P ms m e = ([resolveHandler P m e, t], if b then Handled else Unhandled)) \<and>
   dict_get2 fallbackHandlerMap OrthoViewProfile (''pick'', ''LeftMouseDown'') =
     Some (''nav'', ''LeftMouseDown'') \<and>
   (\<forall>ms b. ms (''pick'', ''LeftMouseDrag'') = Some False \<longrightarrow>
      ms (''nav'', ''LeftMouseDown'') = Some b \<longrightarrow>
      dispatch OrthoViewProfile ms ''pick'' ''LeftMouseDown'' =
        ([(''pick'', ''LeftMouseDrag''), (''nav'', ''LeftMouseDown'')],
         if b then Handled else Unhandled))"
proof (intro conjI allI impI)
  fix P and ms :: methods and m e t b
  assume "ms (resolveHandler P m e) = Some False"
    "dict_get2 fallbackHandlerMap P (m, e) = Some t" "ms t = Some b"
  then show "dispatch P ms m e = ([resolveHandler P m e, t], if b then Handled else Unhandled)"
    by (rule dispatch_declined_fallback)
next
  show "dict_get2 fallbackHandlerMap OrthoViewProfile (''pick'', ''LeftMouseDown'') =
      Some (''nav'', ''LeftMouseDown'')"
    by (rule fallback_pick_LeftMouseDown)
next
  fix ms :: methods and b
  assume "ms (''pick'', ''LeftMouseDrag'') = Some False" "ms (''nav'', ''LeftMouseDown'') = Some b"
  then show "dispatch OrthoViewProfile ms ''pick'' ''LeftMouseDown'' =
        ([(''pick'', ''LeftMouseDrag''), (''nav'', ''LeftMouseDown'')],
         if b then Handled else Unhandled)"
    using dispatch_declined_fallback
      [of ms OrthoViewProfile "''pick''" "''LeftMouseDown''" "(''nav'', ''LeftMouseDown'')" b]
    by (simp add: resolveHandler_alt [OF alt_pick_LeftMouseDown] fallback_pick_LeftMouseDown)
qed

theorem dispatch_fallback_handler_witness:
  "(\<lambda>t. if t = (''nav'', ''LeftMouseDown'') then Some True else Some False)
      (''pick'', ''LeftMouseDrag'') = Some False \<and>
   (\<lambda>t. if t = (''nav'', ''LeftMouseDown'') then Some True else Some False)
      (''nav'', ''LeftMouseDown'') = Some True \<and>
   dispatch OrthoViewProfile
      (\<lambda>t. if t = (''nav'', ''LeftMouseDown'') then Some True else Some False)
      ''pick'' ''LeftMouseDown'' =
     ([(''pick'', ''LeftMouseDrag''), (''nav'', ''LeftMouseDown'')], Handled)"
  using dispatch_fallback_handler [THEN conjunct2, THEN conjunct2, rule_format,
      of "\<lambda>t. if t = (''nav'', ''LeftMouseDown'') then Some True else Some False" True]
  by simp

text \<open>
  C7: for a (mode, event type) pair with no handler method of its own, no entry in the
  alternate map and no entry in the fallback map, dispatch calls no method and reports
  the event as unhandled. Dispatch has no error result, so nothing is raised.
\<close>

theorem dispatch_unhandled:
  "ms (m, e) = None \<Longrightarrow> dict_get2 altHandlerMap P (m, e) = None \<Longrightarrow>
   dict_get2 fallbackHandlerMap P (m, e) = None \<Longrightarrow>
   dispatch P ms m e = ([], Unhandled)"
  by (simp add: dispatch_def invoke_def resolveHandler_literal)

theorem dispatch_unhandled_witness:
  "(\<lambda>_. None) (''nav'', ''KeyDown'') = (None :: bool option) \<and>
   dict_get2 altHandlerMap OrthoViewProfile (''nav'', ''KeyDown'') = None \<and>
   dict_get2 fallbackHandlerMap OrthoViewProfile (''nav'', ''KeyDown'') = None \<and>
   dispatch OrthoViewProfile (\<lambda>_. None) ''nav'' ''KeyDown'' = ([], Unhandled)"
proof -
  have a: "dict_get2 altHandlerMap OrthoViewProfile (''nav'', ''KeyDown'') = None"
    by (simp add: dict_get2_def altHandlerMap_def)
  have f: "dict_get2 fallbackHandlerMap OrthoViewProfile (''nav'', ''KeyDown'') = None"
    by (simp add: dict_get2_def fallbackHandlerMap_def)
  from dispatch_unhandled [of "\<lambda>_. None" "''nav''" "''KeyDown''" OrthoViewProfile, OF _ a f] a f
  show ?thesis by simp
qed

end
